theory Spec2Isabelle
  imports Complex_Main
begin

section \<open>Data model of \<open>App.tsx\<close>\<close>

text \<open>
  The form state is a JavaScript object whose keys are field names and whose values are the
  raw strings typed by the user. It is modelled as a partial map from key to value: a key
  that the object does not own maps to \<open>None\<close>.
\<close>

type_synonym FormData = "string \<rightharpoonup> string"

text \<open>
  The interface \<open>PredictionResult\<close>. Its fields carry the prefix \<open>res_\<close> because the
  component state below has a variable called \<open>prediction\<close> as well. The object
  \<open>probabilities\<close> is kept as the list of its own properties in enumeration order, which is
  the order \<open>Object.keys\<close> and \<open>Object.values\<close> walk through. The numbers are only passed
  on, never computed with.
\<close>

record PredictionResult =
  res_prediction :: string
  res_probabilities :: "(string \<times> real) list"
  res_message :: string

text \<open>
  What \<open>response.data\<close> holds when the request fulfils. It has the type \<open>any\<close> and is
  stored without a check, so besides a well-formed \<open>PredictionResult\<close> there is the case of
  a body that is none: text that is not JSON, which the HTTP library hands over as it
  came, or JSON of another shape. That case carries the body as text.
\<close>

datatype responseData = WellFormed PredictionResult | Malformed string

text \<open>
  The four \<open>useState\<close> cells of the component. The cell \<open>prediction\<close> is declared as
  \<open>PredictionResult | null\<close>; at run time it holds whatever \<open>setPrediction\<close> was given.
\<close>

record App =
  formData :: FormData
  prediction :: "responseData option"
  loading :: bool
  error :: "string option"

definition fieldNames :: "string list" where
  "fieldNames =
     [''age'', ''weight'', ''height'', ''hr'', ''spo2'', ''temp'', ''qt_interval'', ''st_segment'']"

definition initialFormData :: FormData where
  "initialFormData =
     [''age'' \<mapsto> '''', ''weight'' \<mapsto> '''', ''height'' \<mapsto> '''', ''hr'' \<mapsto> '''',
      ''spo2'' \<mapsto> '''', ''temp'' \<mapsto> '''', ''qt_interval'' \<mapsto> '''', ''st_segment'' \<mapsto> '''']"

definition initialApp :: App where
  "initialApp = \<lparr>formData = initialFormData, prediction = None, loading = False, error = None\<rparr>"

section \<open>Handlers as sequences of actions\<close>

text \<open>
  A handler is the list of the calls it makes, in program order. The state setters change
  the component state; the other calls reach outside the component and leave it as it is.
  \<open>setFormData\<close> is called once with a value and once with an updater function, hence the
  two constructors.
\<close>

datatype outcome = Fulfilled responseData | Rejected

datatype action =
    PreventDefault
  | SetFormData FormData
  | SetFormDataWith "FormData \<Rightarrow> FormData"
  | SetPrediction "responseData option"
  | SetLoading bool
  | SetError "string option"
  | AxiosPost string FormData
  | ScrollIntoView
  | ConsoleError

fun exec :: "action \<Rightarrow> App \<Rightarrow> App" where
  "exec (SetFormData v) s = s\<lparr>formData := v\<rparr>"
| "exec (SetFormDataWith f) s = s\<lparr>formData := f (formData s)\<rparr>"
| "exec (SetPrediction p) s = s\<lparr>prediction := p\<rparr>"
| "exec (SetLoading b) s = s\<lparr>loading := b\<rparr>"
| "exec (SetError e) s = s\<lparr>error := e\<rparr>"
| "exec PreventDefault s = s"
| "exec (AxiosPost url body) s = s"
| "exec ScrollIntoView s = s"
| "exec ConsoleError s = s"

fun perform :: "action list \<Rightarrow> App \<Rightarrow> App" where
  "perform [] s = s"
| "perform (a # as) s = perform as (exec a s)"

definition handleChange :: "string \<Rightarrow> string \<Rightarrow> action list" where
  "handleChange name value = [SetFormDataWith (\<lambda>prev. prev(name \<mapsto> value))]"

definition resetForm :: "action list" where
  "resetForm = [SetFormData initialFormData, SetPrediction None, SetError None]"

text \<open>Any number of edits, one after the other.\<close>

fun edits :: "(string \<times> string) list \<Rightarrow> App \<Rightarrow> App" where
  "edits [] s = s"
| "edits ((name, value) # es) s = edits es (perform (handleChange name value) s)"

text \<open>
  \<open>handleSubmit\<close> is an async function. Up to the \<open>await\<close> it runs at once; the rest runs
  when the promise of \<open>axios.post\<close> settles. The promise either fulfils with the response
  data, which is stored as it is, or it rejects, which takes the \<open>catch\<close> branch. Which
  responses make it reject is decided inside the HTTP library: a network error and a
  status outside 2xx do, a body that cannot be parsed does not.
  The \<open>finally\<close> block closes both branches. The second part reads the width of the window
  and asks the document for the element \<open>results-section\<close>; both are parameters. These
  reads and the scrolling are taken not to throw, so the \<open>catch\<close> branch is entered from
  the rejected promise only.
\<close>

definition postUrl :: string where
  "postUrl = ''https://web-production-900a9.up.railway.app/predict''"

definition errorMessage :: string where
  "errorMessage = ''An error occurred during prediction. Please try again.''"

definition handleSubmit_request :: "FormData \<Rightarrow> action list" where
  "handleSubmit_request fd = [PreventDefault, SetLoading True, SetError None, AxiosPost postUrl fd]"

definition handleSubmit_settled :: "nat \<Rightarrow> bool \<Rightarrow> outcome \<Rightarrow> action list" where
  "handleSubmit_settled innerWidth resultsElement out =
     (case out of
        Fulfilled d \<Rightarrow>
          SetPrediction (Some d) #
          (if innerWidth < 1024 then (if resultsElement then [ScrollIntoView] else []) else [])
      | Rejected \<Rightarrow> [SetError (Some errorMessage), ConsoleError])
     @ [SetLoading False]"

fun isPost :: "action \<Rightarrow> bool" where
  "isPost (AxiosPost url body) = True"
| "isPost a = False"

section \<open>The component as a machine driven by events\<close>

text \<open>
  The inputs call \<open>handleChange\<close>, the Reset button calls \<open>resetForm\<close>, and the form's
  submit event calls \<open>handleSubmit\<close>. The submit button carries \<open>disabled={loading}\<close>, so
  no submit event is delivered while \<open>loading\<close> is true. Neither the inputs nor the Reset
  button are ever disabled. A pending promise settles at some later event.
\<close>

record system =
  view :: App
  inflight :: bool

datatype event =
    Change string string
  | Submit
  | Settle nat bool outcome
  | Reset

definition initialSystem :: system where
  "initialSystem = \<lparr>view = initialApp, inflight = False\<rparr>"

fun step :: "event \<Rightarrow> system \<Rightarrow> system" where
  "step (Change name value) \<sigma> = \<sigma>\<lparr>view := perform (handleChange name value) (view \<sigma>)\<rparr>"
| "step Reset \<sigma> = \<sigma>\<lparr>view := perform resetForm (view \<sigma>)\<rparr>"
| "step Submit \<sigma> =
     (if loading (view \<sigma>) then \<sigma>
      else \<lparr>view = perform (handleSubmit_request (formData (view \<sigma>))) (view \<sigma>),
            inflight = True\<rparr>)"
| "step (Settle innerWidth resultsElement out) \<sigma> =
     (if inflight \<sigma>
      then \<lparr>view = perform (handleSubmit_settled innerWidth resultsElement out) (view \<sigma>),
            inflight = False\<rparr>
      else \<sigma>)"

fun run :: "event list \<Rightarrow> system \<Rightarrow> system" where
  "run [] \<sigma> = \<sigma>"
| "run (e # es) \<sigma> = run es (step e \<sigma>)"

section \<open>Result presenter\<close>

record Dataset =
  data :: "real list"
  backgroundColor :: "string list"
  borderColor :: "string list"
  borderWidth :: nat

record ChartData =
  labels :: "string list"
  datasets :: "Dataset list"

text \<open>
  \<open>String.prototype.replace\<close> with a string pattern: the first occurrence of the pattern
  is replaced, the rest of the string is kept. (The replacement \<open>'1'\<close> used below has no
  \<open>$\<close> pattern.)
\<close>

fun str_replace :: "string \<Rightarrow> string \<Rightarrow> string \<Rightarrow> string" where
  "str_replace pat rep [] = (if pat = [] then rep else [])"
| "str_replace pat rep (c # cs) =
     (if take (length pat) (c # cs) = pat then rep @ drop (length pat) (c # cs)
      else c # str_replace pat rep cs)"

definition backgroundColors :: "string list" where
  "backgroundColors =
     [''rgba(54, 162, 235, 0.7)'',
      ''rgba(255, 206, 86, 0.7)'',
      ''rgba(41, 151, 92, 0.7)'',
      ''rgba(250, 64, 64, 0.7)'']"

text \<open>
  \<open>getChartData\<close> reads the state cell \<open>prediction\<close>. Its argument here is the content of
  that cell at the declared type, \<open>PredictionResult | null\<close>.
\<close>

definition getChartData :: "PredictionResult option \<Rightarrow> ChartData option" where
  "getChartData pred =
     (case pred of
        None \<Rightarrow> None
      | Some p \<Rightarrow>
          Some \<lparr>labels = map fst (res_probabilities p),
                datasets =
                  [\<lparr>data = map snd (res_probabilities p),
                    backgroundColor = backgroundColors,
                    borderColor = map (str_replace ''0.7'' ''1'') backgroundColors,
                    borderWidth = 1\<rparr>]\<rparr>)"

definition getDiagnosisColor :: "string \<Rightarrow> string" where
  "getDiagnosisColor diagnosis =
     (if diagnosis = ''Good'' then ''bg-green-100 text-green-700''
      else if diagnosis = ''Heart Failure'' then ''bg-red-100 text-red-700''
      else if diagnosis = ''Arrhythmia'' then ''bg-blue-100 text-blue-700''
      else ''bg-yellow-100 text-yellow-700'')"

record Recommendation =
  message :: string
  color :: string

definition getRecommendationMessage :: "string \<Rightarrow> Recommendation" where
  "getRecommendationMessage diagnosis =
     (if diagnosis = ''Good'' then
        \<lparr>message = ''No issues found. Maintain a healthy lifestyle.'',
         color = ''bg-green-100 text-green-700''\<rparr>
      else if diagnosis = ''Heart Failure'' then
        \<lparr>message = ''Urgent care needed. See a cardiologist now.'',
         color = ''bg-red-100 text-red-700''\<rparr>
      else if diagnosis = ''Coronary Artery Disease'' then
        \<lparr>message = ''Consult a cardiologist. Follow a heart-healthy plan.'',
         color = ''bg-orange-100 text-orange-700''\<rparr>
      else if diagnosis = ''Arrhythmia'' then
        \<lparr>message = ''See a cardiologist. Avoid caffeine and monitor symptoms.'',
         color = ''bg-blue-100 text-blue-700''\<rparr>
      else
        \<lparr>message = ''Further evaluation needed. Consult a doctor.'',
         color = ''bg-yellow-100 text-yellow-700''\<rparr>)"

text \<open>
  Modelled from the spec: the colour that the chart library gives slice number \<open>i\<close> when
  the dataset's \<open>backgroundColor\<close> is an array. The library is not part of this
  repository; the spec says the palette is assigned positionally and repeats from its start
  when there are more slices than colours. An empty array yields no colour.
\<close>

definition sliceColor :: "string list \<Rightarrow> nat \<Rightarrow> string option" where
  "sliceColor palette i =
     (if palette = [] then None else Some (palette ! (i mod length palette)))"

text \<open>A response of the prediction service, used in the examples below.\<close>

definition exampleResult :: PredictionResult where
  "exampleResult =
     \<lparr>res_prediction = ''Heart Failure'',
      res_probabilities = [(''Heart Failure'', 0.8), (''Good'', 0.2)],
      res_message = ''x''\<rparr>"

text \<open>The user fills in the eight required fields, one change event per field.\<close>

definition fillForm :: "event list" where
  "fillForm =
     [Change ''age'' ''54'', Change ''weight'' ''80'', Change ''height'' ''175'',
      Change ''hr'' ''72'', Change ''spo2'' ''97'', Change ''temp'' ''36.6'',
      Change ''qt_interval'' ''0.4'', Change ''st_segment'' ''0.1'']"

section \<open>Properties\<close>

lemma edits_snoc:
  "edits (es @ [(name, value)]) s = perform (handleChange name value) (edits es s)"
  by (induction es arbitrary: s) auto

text \<open>
  C4. Whatever the state was, after \<open>resetForm\<close> the form data is the initial record, in
  which each of the eight fields is the empty string and no other key exists, and both
  \<open>prediction\<close> and \<open>error\<close> are null.
\<close>

theorem resetForm_clears:
  "formData (perform resetForm s) = initialFormData
   \<and> formData (perform resetForm s) = formData initialApp
   \<and> map (formData (perform resetForm s)) fieldNames = map (\<lambda>name. Some '''') fieldNames
   \<and> dom (formData (perform resetForm s)) = set fieldNames
   \<and> length fieldNames = 8 \<and> distinct fieldNames
   \<and> prediction (perform resetForm s) = None
   \<and> error (perform resetForm s) = None"
  by (auto simp: resetForm_def initialFormData_def initialApp_def fieldNames_def
      split: if_splits)

text \<open>
  C7. \<open>getChartData\<close> returns null exactly when no prediction is stored. Otherwise the labels
  are the keys of \<open>probabilities\<close> in the object's own order and the single dataset holds
  the values in the same order, so pairing them up gives back the entries of the object.
  For the probabilities \<open>{"Heart Failure": 0.8, "Good": 0.2}\<close> the labels are
  \<open>["Heart Failure", "Good"]\<close> and the values \<open>[0.8, 0.2]\<close>.
\<close>

theorem getChartData_labels_values:
  "(getChartData pred = None) = (pred = None)
   \<and> (\<exists>cd ds. getChartData (Some p) = Some cd \<and> datasets cd = [ds]
         \<and> labels cd = map fst (res_probabilities p)
         \<and> data ds = map snd (res_probabilities p)
         \<and> zip (labels cd) (data ds) = res_probabilities p)
   \<and> map_option labels
        (getChartData (Some \<lparr>res_prediction = ''Heart Failure'',
            res_probabilities = [(''Heart Failure'', 0.8), (''Good'', 0.2)],
            res_message = ''x''\<rparr>)) = Some [''Heart Failure'', ''Good'']
   \<and> map_option (map data \<circ> datasets)
        (getChartData (Some \<lparr>res_prediction = ''Heart Failure'',
            res_probabilities = [(''Heart Failure'', 0.8), (''Good'', 0.2)],
            res_message = ''x''\<rparr>)) = Some [[0.8, 0.2]]"
  by (simp add: getChartData_def zip_map_fst_snd split: option.splits)

text \<open>
  C5. \<open>handleChange\<close> with a name and a value sets that key of the form data to the value;
  every other key keeps what it had, and the other state cells are not touched. This holds
  for every name, so for each of the eight fields. After any sequence of edits one more
  edit yields the previous form data updated at the single key named, so the keys whose
  value differs before and after the edit are among that one name, and are exactly that
  name when the value is not the one already stored.
\<close>

theorem handleChange_one_field:
  "formData (perform (handleChange name value) s) name = Some value
   \<and> (\<forall>other. other \<noteq> name \<longrightarrow>
          formData (perform (handleChange name value) s) other = formData s other)
   \<and> prediction (perform (handleChange name value) s) = prediction s
   \<and> loading (perform (handleChange name value) s) = loading s
   \<and> error (perform (handleChange name value) s) = error s
   \<and> formData (edits (es @ [(name, value)]) s) = (formData (edits es s))(name \<mapsto> value)
   \<and> {k. formData (edits (es @ [(name, value)]) s) k \<noteq> formData (edits es s) k} \<subseteq> {name}
   \<and> (formData (edits es s) name \<noteq> Some value \<longrightarrow>
        {k. formData (edits (es @ [(name, value)]) s) k \<noteq> formData (edits es s) k} = {name})"
  by (auto simp: edits_snoc handleChange_def)

theorem handleChange_one_field_witness:
  "''hr'' \<noteq> ''age''
   \<and> formData (perform (handleChange ''age'' ''42'') initialApp) ''age'' = Some ''42''
   \<and> formData (perform (handleChange ''age'' ''42'') initialApp) ''hr'' = Some ''''
   \<and> formData initialApp ''hr'' = Some ''''
   \<and> formData (edits [] initialApp) ''age'' \<noteq> Some ''42''
   \<and> {k. formData (edits ([] @ [(''age'', ''42'')]) initialApp) k
            \<noteq> formData (edits [] initialApp) k} = {''age''}"
proof -
  have h: "''hr'' \<noteq> ''age''"
    by simp
  have n: "formData (edits [] initialApp) ''age'' \<noteq> Some ''42''"
    by (simp add: initialApp_def initialFormData_def)
  have i: "formData initialApp ''hr'' = Some ''''"
    by (simp add: initialApp_def initialFormData_def)
  note t = handleChange_one_field [of "''age''" "''42''" initialApp "[]"]
  note t1 = t [THEN conjunct1]
  note t2 = t [THEN conjunct2, THEN conjunct1, THEN spec, THEN mp, OF h]
  note t8 = t [THEN conjunct2, THEN conjunct2, THEN conjunct2, THEN conjunct2, THEN conjunct2,
      THEN conjunct2, THEN conjunct2, THEN mp, OF n]
  show ?thesis
    using h n i t1 t2 t8 by (simp only: simp_thms)
qed

text \<open>
  C10. \<open>handleChange\<close> has no check on the name. For a name that is none of the eight
  fields the key is stored with the value: afterwards the object owns the keys it had plus
  this one, and the eight fields hold what they held before.
\<close>

theorem handleChange_unknown_name:
  "name \<notin> set fieldNames \<Longrightarrow>
     formData (perform (handleChange name value) s) name = Some value
     \<and> dom (formData (perform (handleChange name value) s)) = insert name (dom (formData s))
     \<and> map (formData (perform (handleChange name value) s)) fieldNames
         = map (formData s) fieldNames"
  by (auto simp: handleChange_def fieldNames_def)

theorem handleChange_unknown_name_witness:
  "''bmi'' \<notin> set fieldNames
   \<and> formData (perform (handleChange ''bmi'' ''23'') initialApp) ''bmi'' = Some ''23''
   \<and> formData initialApp ''bmi'' = None
   \<and> dom (formData (perform (handleChange ''bmi'' ''23'') initialApp))
       = insert ''bmi'' (set fieldNames)"
proof -
  have h: "''bmi'' \<notin> set fieldNames"
    by (simp add: fieldNames_def)
  have d: "dom (formData initialApp) = set fieldNames"
    by (auto simp: initialApp_def initialFormData_def fieldNames_def split: if_splits)
  have n: "formData initialApp ''bmi'' = None"
    by (simp add: initialApp_def initialFormData_def)
  show ?thesis
    using h n d handleChange_unknown_name [OF h, of "''23''" initialApp] by simp
qed

text \<open>
  C6. \<open>getRecommendationMessage\<close> on the four known labels, and on every other label. The
  colour paired with \<open>Heart Failure\<close> is the red class string, the one \<open>getDiagnosisColor\<close>
  gives that label; the colour paired with an unknown label is the yellow class string
  of the \<open>default\<close> branch.
\<close>

theorem getRecommendationMessage_table:
  "getRecommendationMessage ''Good'' =
     \<lparr>message = ''No issues found. Maintain a healthy lifestyle.'',
      color = ''bg-green-100 text-green-700''\<rparr>
   \<and> getRecommendationMessage ''Heart Failure'' =
     \<lparr>message = ''Urgent care needed. See a cardiologist now.'',
      color = ''bg-red-100 text-red-700''\<rparr>
   \<and> color (getRecommendationMessage ''Heart Failure'') = getDiagnosisColor ''Heart Failure''
   \<and> getRecommendationMessage ''Coronary Artery Disease'' =
     \<lparr>message = ''Consult a cardiologist. Follow a heart-healthy plan.'',
      color = ''bg-orange-100 text-orange-700''\<rparr>
   \<and> getRecommendationMessage ''Arrhythmia'' =
     \<lparr>message = ''See a cardiologist. Avoid caffeine and monitor symptoms.'',
      color = ''bg-blue-100 text-blue-700''\<rparr>
   \<and> (\<forall>label. label \<notin> {''Good'', ''Heart Failure'', ''Coronary Artery Disease'', ''Arrhythmia''}
        \<longrightarrow> getRecommendationMessage label =
              \<lparr>message = ''Further evaluation needed. Consult a doctor.'',
               color = ''bg-yellow-100 text-yellow-700''\<rparr>)"
  by (simp add: getRecommendationMessage_def getDiagnosisColor_def)

theorem getRecommendationMessage_table_witness:
  "''Unknown'' \<notin> {''Good'', ''Heart Failure'', ''Coronary Artery Disease'', ''Arrhythmia''}
   \<and> getRecommendationMessage ''Unknown'' =
       \<lparr>message = ''Further evaluation needed. Consult a doctor.'',
        color = ''bg-yellow-100 text-yellow-700''\<rparr>"
proof -
  have h: "''Unknown'' \<notin> {''Good'', ''Heart Failure'', ''Coronary Artery Disease'', ''Arrhythmia''}"
    by simp
  have "getRecommendationMessage ''Unknown'' =
          \<lparr>message = ''Further evaluation needed. Consult a doctor.'',
           color = ''bg-yellow-100 text-yellow-700''\<rparr>"
    by (rule getRecommendationMessage_table
          [THEN conjunct2, THEN conjunct2, THEN conjunct2, THEN conjunct2, THEN conjunct2,
           THEN spec, THEN mp, OF h])
  with h show ?thesis by simp
qed

text \<open>
  C9. The colour of the diagnosis badge and the colour of the recommendation panel are the
  same for \<open>Good\<close>, \<open>Heart Failure\<close>, \<open>Arrhythmia\<close> and every label that is not one of the
  four known ones. For \<open>Coronary Artery Disease\<close> they differ: \<open>getDiagnosisColor\<close> has no
  case for it and returns the yellow default, \<open>getRecommendationMessage\<close> returns orange.
\<close>

theorem diagnosis_and_recommendation_colors:
  "getDiagnosisColor ''Good'' = color (getRecommendationMessage ''Good'')
   \<and> getDiagnosisColor ''Heart Failure'' = color (getRecommendationMessage ''Heart Failure'')
   \<and> getDiagnosisColor ''Arrhythmia'' = color (getRecommendationMessage ''Arrhythmia'')
   \<and> (\<forall>label. label \<notin> {''Good'', ''Heart Failure'', ''Coronary Artery Disease'', ''Arrhythmia''}
        \<longrightarrow> getDiagnosisColor label = color (getRecommendationMessage label)
            \<and> getDiagnosisColor label = ''bg-yellow-100 text-yellow-700'')
   \<and> getDiagnosisColor ''Coronary Artery Disease'' = ''bg-yellow-100 text-yellow-700''
   \<and> color (getRecommendationMessage ''Coronary Artery Disease'') = ''bg-orange-100 text-orange-700''
   \<and> getDiagnosisColor ''Coronary Artery Disease''
       \<noteq> color (getRecommendationMessage ''Coronary Artery Disease'')"
  by (simp add: getRecommendationMessage_def getDiagnosisColor_def)

theorem diagnosis_and_recommendation_colors_witness:
  "''Unknown'' \<notin> {''Good'', ''Heart Failure'', ''Coronary Artery Disease'', ''Arrhythmia''}
   \<and> getDiagnosisColor ''Unknown'' = color (getRecommendationMessage ''Unknown'')
   \<and> getDiagnosisColor ''Unknown'' = ''bg-yellow-100 text-yellow-700''"
proof -
  have h: "''Unknown'' \<notin> {''Good'', ''Heart Failure'', ''Coronary Artery Disease'', ''Arrhythmia''}"
    by simp
  have c: "getDiagnosisColor ''Unknown'' = color (getRecommendationMessage ''Unknown'')
        \<and> getDiagnosisColor ''Unknown'' = ''bg-yellow-100 text-yellow-700''"
    by (rule diagnosis_and_recommendation_colors
          [THEN conjunct2, THEN conjunct2, THEN conjunct2, THEN conjunct1, THEN spec, THEN mp,
           OF h])
  show ?thesis
    by (intro conjI h c [THEN conjunct1] c [THEN conjunct2])
qed

text \<open>The border colours that \<open>getChartData\<close> derives are the same four, opaque.\<close>

lemma borderColor_opaque:
  "map (str_replace ''0.7'' ''1'') backgroundColors =
     [''rgba(54, 162, 235, 1)'', ''rgba(255, 206, 86, 1)'',
      ''rgba(41, 151, 92, 1)'', ''rgba(250, 64, 64, 1)'']"
  by (simp add: backgroundColors_def)

text \<open>
  C8. For every prediction result the dataset of \<open>getChartData\<close> carries the same palette:
  four colours, each an \<open>rgba\<close> value with alpha \<open>0.7\<close>, whatever the number of categories.
  With the positional assignment of the chart library, slice \<open>i\<close> gets entry \<open>i mod 4\<close> of
  the palette: the first four slices get the four colours in order, slice \<open>i + 4\<close> gets the
  colour of slice \<open>i\<close>, and the fifth slice gets the first colour again.
\<close>

theorem getChartData_palette:
  "\<exists>cd ds. getChartData (Some p) = Some cd \<and> datasets cd = [ds]
      \<and> backgroundColor ds = backgroundColors
      \<and> length (backgroundColor ds) = 4
      \<and> distinct (backgroundColor ds)
      \<and> map (take 5) (backgroundColor ds) = map (\<lambda>c. ''rgba('') (backgroundColor ds)
      \<and> map (\<lambda>c. drop (length c - 5) c) (backgroundColor ds)
          = map (\<lambda>c. '' 0.7)'') (backgroundColor ds)
      \<and> (\<forall>i. sliceColor (backgroundColor ds) i = Some (backgroundColors ! (i mod 4)))
      \<and> map (sliceColor (backgroundColor ds)) [0, 1, 2, 3] = map Some backgroundColors
      \<and> (\<forall>i. sliceColor (backgroundColor ds) (i + 4) = sliceColor (backgroundColor ds) i)
      \<and> sliceColor (backgroundColor ds) 4 = Some ''rgba(54, 162, 235, 0.7)''"
  by (simp add: getChartData_def sliceColor_def backgroundColors_def)

section \<open>Submission\<close>

lemma perform_settled_Rejected:
  "perform (handleSubmit_settled w el Rejected) s = s\<lparr>error := Some errorMessage, loading := False\<rparr>"
  by (simp add: handleSubmit_settled_def)

lemma perform_settled_Fulfilled:
  "perform (handleSubmit_settled w el (Fulfilled d)) s = s\<lparr>prediction := Some d, loading := False\<rparr>"
  by (simp add: handleSubmit_settled_def)

lemma perform_request:
  "perform (handleSubmit_request fd) s = s\<lparr>loading := True, error := None\<rparr>"
  by (simp add: handleSubmit_request_def)

lemma step_loading_inflight:
  assumes inv: "loading (view \<sigma>) = inflight \<sigma>"
  shows "loading (view (step e \<sigma>)) = inflight (step e \<sigma>)"
proof (cases e)
  case (Change n v)
  with inv show ?thesis by (simp add: handleChange_def)
next
  case Submit
  with inv show ?thesis by (simp add: perform_request)
next
  case (Settle w el out)
  with inv show ?thesis
    by (cases out) (simp_all add: perform_settled_Rejected perform_settled_Fulfilled)
next
  case Reset
  with inv show ?thesis by (simp add: resetForm_def)
qed

lemma run_loading_inflight:
  "loading (view \<sigma>) = inflight \<sigma> \<Longrightarrow> loading (view (run es \<sigma>)) = inflight (run es \<sigma>)"
proof (induction es arbitrary: \<sigma>)
  case Nil
  then show ?case by simp
next
  case (Cons e es)
  from Cons.prems have "loading (view (step e \<sigma>)) = inflight (step e \<sigma>)"
    by (rule step_loading_inflight)
  then show ?case by (simp add: Cons.IH)
qed

lemma step_inflight_no_error:
  assumes inv: "inflight \<sigma> \<longrightarrow> error (view \<sigma>) = None"
  shows "inflight (step e \<sigma>) \<longrightarrow> error (view (step e \<sigma>)) = None"
proof (cases e)
  case (Change n v)
  with inv show ?thesis by (simp add: handleChange_def)
next
  case Submit
  with inv show ?thesis by (simp add: perform_request)
next
  case (Settle w el out)
  with inv show ?thesis by simp
next
  case Reset
  with inv show ?thesis by (simp add: resetForm_def)
qed

lemma run_inflight_no_error:
  "(inflight \<sigma> \<longrightarrow> error (view \<sigma>) = None) \<Longrightarrow>
   (inflight (run es \<sigma>) \<longrightarrow> error (view (run es \<sigma>)) = None)"
proof (induction es arbitrary: \<sigma>)
  case Nil
  then show ?case by simp
next
  case (Cons e es)
  from Cons.prems have "inflight (step e \<sigma>) \<longrightarrow> error (view (step e \<sigma>)) = None"
    by (rule step_inflight_no_error)
  then show ?case by (simp add: Cons.IH)
qed

lemma initial_not_busy:
  "loading (view initialSystem) = inflight initialSystem" "\<not> inflight initialSystem"
  by (simp_all add: initialSystem_def initialApp_def)

lemma run_append: "run (es @ es') \<sigma> = run es' (run es \<sigma>)"
  by (induction es arbitrary: \<sigma>) simp_all

lemma run_fillForm:
  "run fillForm \<sigma> =
     \<sigma>\<lparr>view := (view \<sigma>)\<lparr>formData := (formData (view \<sigma>))
        (''age'' \<mapsto> ''54'', ''weight'' \<mapsto> ''80'', ''height'' \<mapsto> ''175'', ''hr'' \<mapsto> ''72'',
         ''spo2'' \<mapsto> ''97'', ''temp'' \<mapsto> ''36.6'', ''qt_interval'' \<mapsto> ''0.4'',
         ''st_segment'' \<mapsto> ''0.1'')\<rparr>\<rparr>"
  by (simp add: fillForm_def handleChange_def)

text \<open>
  C1, as stated, fails for a malformed body. The form is filled in and a first submission
  stores a result. A second submission is answered with status 200 and a body that is not
  JSON: the promise fulfils, the body is stored in place of the result, and \<open>error\<close> stays
  null.
\<close>

theorem handleSubmit_malformed_body:
  "prediction (view (run (fillForm @
       [Submit, Settle 1280 True (Fulfilled (WellFormed exampleResult)), Submit]) initialSystem))
     = Some (WellFormed exampleResult)
   \<and> inflight (run (fillForm @
       [Submit, Settle 1280 True (Fulfilled (WellFormed exampleResult)), Submit]) initialSystem)
   \<and> error (view (run (fillForm @
       [Submit, Settle 1280 True (Fulfilled (WellFormed exampleResult)),
        Submit, Settle 1280 True (Fulfilled (Malformed ''not json''))]) initialSystem))
     = None
   \<and> prediction (view (run (fillForm @
       [Submit, Settle 1280 True (Fulfilled (WellFormed exampleResult)),
        Submit, Settle 1280 True (Fulfilled (Malformed ''not json''))]) initialSystem))
     = Some (Malformed ''not json'')
   \<and> \<not> loading (view (run (fillForm @
       [Submit, Settle 1280 True (Fulfilled (WellFormed exampleResult)),
        Submit, Settle 1280 True (Fulfilled (Malformed ''not json''))]) initialSystem))"
  by (simp add: run_append run_fillForm initialSystem_def initialApp_def perform_request
      perform_settled_Fulfilled)

text \<open>
  C1, amended. When the request is rejected, as it is on a network error and on a status
  outside 2xx, the rest of \<open>handleSubmit\<close> sets \<open>error\<close> to the fixed message and \<open>loading\<close>
  to false, and leaves the stored prediction, present or not, and the form data as they
  are. The same holds for a submission taken as a whole, from the state in which it was
  started.
\<close>

theorem handleSubmit_rejected:
  "error (perform (handleSubmit_settled w el Rejected) s)
     = Some ''An error occurred during prediction. Please try again.''
   \<and> loading (perform (handleSubmit_settled w el Rejected) s) = False
   \<and> prediction (perform (handleSubmit_settled w el Rejected) s) = prediction s
   \<and> formData (perform (handleSubmit_settled w el Rejected) s) = formData s
   \<and> perform (handleSubmit_settled w el Rejected) (perform (handleSubmit_request (formData s)) s)
       = s\<lparr>error := Some ''An error occurred during prediction. Please try again.'',
            loading := False\<rparr>
   \<and> view (step (Settle w el Rejected) \<lparr>view = s, inflight = True\<rparr>)
       = s\<lparr>error := Some ''An error occurred during prediction. Please try again.'',
            loading := False\<rparr>"
  by (simp add: perform_settled_Rejected perform_request errorMessage_def)

text \<open>
  C3. Each call of \<open>handleSubmit\<close> issues exactly one POST, as the last call before it
  suspends, to the fixed URL and with the form data object itself as the body. The calls
  made before it leave \<open>loading\<close> true and \<open>error\<close> null. When the request settles, either
  way, the last call sets \<open>loading\<close> to false. In every state the component reaches from
  its initial state, \<open>loading\<close> is true exactly while a request is in flight.
\<close>

theorem handleSubmit_loading:
  "last (handleSubmit_request (formData s)) = AxiosPost postUrl (formData s)
   \<and> filter isPost (handleSubmit_request (formData s)) = [AxiosPost postUrl (formData s)]
   \<and> loading (perform (butlast (handleSubmit_request (formData s))) s) = True
   \<and> error (perform (butlast (handleSubmit_request (formData s))) s) = None
   \<and> loading (perform (handleSubmit_request (formData s)) s) = True
   \<and> filter isPost (handleSubmit_settled w el out) = []
   \<and> last (handleSubmit_settled w el out) = SetLoading False
   \<and> loading (perform (handleSubmit_settled w el out) s') = False
   \<and> loading initialApp = False
   \<and> loading (view (run es initialSystem)) = inflight (run es initialSystem)"
proof -
  have "loading (perform (handleSubmit_settled w el out) s') = False"
    by (cases out) (simp_all add: perform_settled_Rejected perform_settled_Fulfilled)
  moreover have "filter isPost (handleSubmit_settled w el out) = []"
    by (cases out) (simp_all add: handleSubmit_settled_def)
  moreover have "loading (view (run es initialSystem)) = inflight (run es initialSystem)"
    by (rule run_loading_inflight) (rule initial_not_busy)
  ultimately show ?thesis
    by (simp add: handleSubmit_request_def handleSubmit_settled_def initialApp_def)
qed

text \<open>
  C2, as stated, fails. A first submission succeeds and stores a prediction; a second one
  is started, and the prediction is still there; the second one is rejected, and the
  component then holds a prediction and an error at the same time, with no request in
  flight.
\<close>

theorem prediction_and_error_together:
  "prediction (view (run [Submit, Settle 1280 True (Fulfilled (WellFormed exampleResult)), Submit] initialSystem))
     = Some (WellFormed exampleResult)
   \<and> prediction (view (run [Submit, Settle 1280 True (Fulfilled (WellFormed exampleResult)),
                           Submit, Settle 1280 True Rejected] initialSystem))
     = Some (WellFormed exampleResult)
   \<and> error (view (run [Submit, Settle 1280 True (Fulfilled (WellFormed exampleResult)),
                      Submit, Settle 1280 True Rejected] initialSystem))
     = Some errorMessage
   \<and> \<not> loading (view (run [Submit, Settle 1280 True (Fulfilled (WellFormed exampleResult)),
                          Submit, Settle 1280 True Rejected] initialSystem))"
  by (simp add: initialSystem_def initialApp_def perform_request perform_settled_Fulfilled
      perform_settled_Rejected)

text \<open>
  C2, amended. In every state reached from the initial one: while a request is in flight,
  \<open>error\<close> is null. Starting a submission sets \<open>error\<close> to null and keeps the stored
  prediction. When the request fulfils, the prediction is the response data and \<open>error\<close> is
  null. When it is rejected, \<open>error\<close> is the fixed message and the prediction is the one
  stored before, so the two are present together exactly when one was stored before.
\<close>

theorem submission_outcomes:
  assumes "\<sigma> = run es initialSystem"
  shows "(inflight \<sigma> \<longrightarrow> error (view \<sigma>) = None)
    \<and> (\<not> loading (view \<sigma>) \<longrightarrow>
          error (view (step Submit \<sigma>)) = None
          \<and> prediction (view (step Submit \<sigma>)) = prediction (view \<sigma>))
    \<and> (inflight \<sigma> \<longrightarrow>
          prediction (view (step (Settle w el (Fulfilled d)) \<sigma>)) = Some d
          \<and> error (view (step (Settle w el (Fulfilled d)) \<sigma>)) = None)
    \<and> (inflight \<sigma> \<longrightarrow>
          error (view (step (Settle w el Rejected) \<sigma>)) = Some errorMessage
          \<and> prediction (view (step (Settle w el Rejected) \<sigma>)) = prediction (view \<sigma>))"
proof -
  have quiet: "inflight \<sigma> \<longrightarrow> error (view \<sigma>) = None"
    unfolding assms by (rule run_inflight_no_error) (simp add: initial_not_busy)
  then show ?thesis
    by (simp add: perform_request perform_settled_Fulfilled perform_settled_Rejected)
qed

theorem submission_outcomes_witness:
  "\<not> loading (view (run [] initialSystem))
   \<and> error (view (step Submit (run [] initialSystem))) = None
   \<and> prediction (view (step Submit (run [] initialSystem))) = None
   \<and> inflight (run [Submit] initialSystem)
   \<and> error (view (run [Submit] initialSystem)) = None
   \<and> prediction (view (step (Settle 1280 True (Fulfilled (WellFormed exampleResult))) (run [Submit] initialSystem)))
       = Some (WellFormed exampleResult)
   \<and> error (view (step (Settle 1280 True (Fulfilled (WellFormed exampleResult))) (run [Submit] initialSystem)))
       = None
   \<and> error (view (step (Settle 1280 True Rejected) (run [Submit] initialSystem)))
       = Some errorMessage
   \<and> prediction (view (step (Settle 1280 True Rejected) (run [Submit] initialSystem))) = None"
proof -
  have idle: "\<not> loading (view (run [] initialSystem))"
    by (simp add: initialSystem_def initialApp_def)
  have busy: "inflight (run [Submit] initialSystem)"
    by (simp add: initialSystem_def initialApp_def)
  have none: "prediction (view (run [] initialSystem)) = None"
    "prediction (view (run [Submit] initialSystem)) = None"
    by (simp_all add: initialSystem_def initialApp_def perform_request)
  note a = submission_outcomes [where es = "[]" and \<sigma> = "run [] initialSystem", OF refl]
  note b = submission_outcomes [where es = "[Submit]" and \<sigma> = "run [Submit] initialSystem"
      and w = 1280 and el = True and d = "WellFormed exampleResult", OF refl]
  note a2 = a [THEN conjunct2, THEN conjunct1, THEN mp, OF idle]
  note b1 = b [THEN conjunct1, THEN mp, OF busy]
  note b3 = b [THEN conjunct2, THEN conjunct2, THEN conjunct1, THEN mp, OF busy]
  note b4 = b [THEN conjunct2, THEN conjunct2, THEN conjunct2, THEN mp, OF busy]
  show ?thesis
    using idle busy a2 b1 b3 b4 by (simp only: none simp_thms)
qed

end
